theory Spec2Isabelle
  imports Main "HOL-Library.Word"
begin

section \<open>Solidity values\<close>

text \<open>
  The two registry contracts of the repository, \<^verbatim>\<open>src/RealMarriageRegistry.sol\<close>
  (identities are zkPassport nullifiers) and \<^verbatim>\<open>src/MarriageRegistry.sol\<close>
  (identities are wallet addresses, eligibility is Merkle membership), are embedded as
  functions on an explicit storage record.

  \<^verbatim>\<open>bytes32\<close> and \<^verbatim>\<open>uint256\<close> are 256-bit words, an \<^verbatim>\<open>address\<close> is a 160-bit
  word, \<^verbatim>\<open>bytes\<close> is a list of 8-bit words and a Solidity \<^verbatim>\<open>string\<close> is a
  \<^typ>\<open>string\<close> (a list of byte-sized characters). Comparison of words is unsigned, as
  the comparison of \<^verbatim>\<open>bytes32\<close> and \<^verbatim>\<open>uint256\<close> values is in Solidity.
\<close>

type_synonym bytes32 = "256 word"
type_synonym uint256 = "256 word"
type_synonym address = "160 word"
type_synonym bytes = "8 word list"

text \<open>
  \<^verbatim>\<open>keccak256\<close> is a primitive of the platform, not code of the repository. Every
  function that hashes takes it as its first argument \<open>H\<close>; the general theorems hold
  for every \<open>H\<close>.
\<close>

type_synonym keccak = "bytes \<Rightarrow> bytes32"

text \<open>
  \<^verbatim>\<open>abi.encodePacked\<close> concatenates its arguments without padding: a \<^verbatim>\<open>bytes32\<close>
  or \<^verbatim>\<open>uint256\<close> as its 32 bytes, most significant first, an \<^verbatim>\<open>address\<close> as its
  20 bytes, a string as its bytes.
\<close>

definition packed_word :: "256 word \<Rightarrow> bytes" where
  "packed_word w = map (\<lambda>i. ucast (drop_bit (8 * (31 - i)) w)) [0..<32]"

definition packed_address :: "address \<Rightarrow> bytes" where
  "packed_address a = map (\<lambda>i. ucast (drop_bit (8 * (19 - i)) a)) [0..<20]"

definition packed_string :: "string \<Rightarrow> bytes" where
  "packed_string s = map of_char s"

section \<open>RealMarriageRegistry: data\<close>

record Marriage =
  spouse1Nullifier :: bytes32
  spouse2Nullifier :: bytes32
  proof1Hash :: bytes32
  proof2Hash :: bytes32
  marriageDate :: uint256
  isActive :: bool
  jurisdiction :: string
  certificateHash :: bytes32

record MarriageProposal =
  proposerNullifier :: bytes32
  proposeeNullifier :: bytes32
  proposalHash :: bytes32
  timestamp :: uint256
  expiresAt :: uint256
  isAccepted :: bool
  isExpired :: bool
  proposalJurisdiction :: string

text \<open>
  A Solidity mapping is total: a key never written reads as the zero value of the
  value type. The four mappings are therefore total functions, and the storage of a
  freshly deployed contract holds the zero records everywhere.
\<close>

record registry =
  marriages :: "bytes32 \<Rightarrow> Marriage"
  proposals :: "bytes32 \<Rightarrow> MarriageProposal"
  nullifierToMarriage :: "bytes32 \<Rightarrow> bytes32"
  usedNullifiers :: "bytes32 \<Rightarrow> bool"
  zkPassportVerifier :: address
  owner :: address

definition zero_Marriage :: Marriage where
  "zero_Marriage = \<lparr>spouse1Nullifier = 0, spouse2Nullifier = 0, proof1Hash = 0,
     proof2Hash = 0, marriageDate = 0, isActive = False, jurisdiction = [],
     certificateHash = 0\<rparr>"

definition zero_MarriageProposal :: MarriageProposal where
  "zero_MarriageProposal = \<lparr>proposerNullifier = 0, proposeeNullifier = 0,
     proposalHash = 0, timestamp = 0, expiresAt = 0, isAccepted = False,
     isExpired = False, proposalJurisdiction = []\<rparr>"

text \<open>The constructor: \<^verbatim>\<open>Ownable(msg.sender)\<close> and the verifier address.\<close>

definition constructor :: "address \<Rightarrow> address \<Rightarrow> registry" where
  "constructor sender verifier =
     \<lparr>marriages = (\<lambda>_. zero_Marriage), proposals = (\<lambda>_. zero_MarriageProposal),
      nullifierToMarriage = (\<lambda>_. 0), usedNullifiers = (\<lambda>_. False),
      zkPassportVerifier = verifier, owner = sender\<rparr>"

datatype error =
    InvalidZKPassportProof
  | AlreadyMarried
  | ProposalNotFound
  | ProposalExpired
  | NotAuthorized
  | MarriageNotActive
  | NullifierAlreadyUsed
  | Error string
  | OwnableUnauthorizedAccount address

text \<open>
  A call either reverts or returns. \<open>Inl (e, s)\<close> is a revert with error \<open>e\<close>, raised
  when the storage written so far was \<open>s\<close>; \<open>Inr s\<close> is a normal return with storage
  \<open>s\<close>. The events a call emits are not part of the storage and are left out.
\<close>

type_synonym outcome = "(error \<times> registry) + registry"

section \<open>RealMarriageRegistry: functions\<close>

text \<open>
  Each function takes the hash, the block timestamp where it reads it, its arguments
  and the storage. The modifier \<^verbatim>\<open>nonReentrant\<close> never reverts here: no function of
  the contract calls out, so none is entered while another one runs.

  \<^verbatim>\<open>_verifyZKPassportProof\<close> (the name cannot start with an underscore here).
\<close>

definition derivedNullifier :: "keccak \<Rightarrow> bytes \<Rightarrow> bytes32" where
  "derivedNullifier H zkproof =
     (let proofHash = H zkproof
      in H (packed_word proofHash @ packed_string ''nullifier''))"

definition verifyZKPassportProof :: "keccak \<Rightarrow> bytes \<Rightarrow> bytes32 \<Rightarrow> bool" where
  "verifyZKPassportProof H zkproof expectedNullifier =
     (if length zkproof = 0 then False
      else derivedNullifier H zkproof = expectedNullifier)"

definition createMarriageProposal ::
  "keccak \<Rightarrow> uint256 \<Rightarrow> bytes32 \<Rightarrow> bytes32 \<Rightarrow> bytes32 \<Rightarrow> bytes32 \<Rightarrow> uint256 \<Rightarrow> string
     \<Rightarrow> bytes \<Rightarrow> bytes \<Rightarrow> registry \<Rightarrow> outcome" where
  "createMarriageProposal H now proposalId proposerN proposeeN propHash expirationTime
       jur zkPassportProof1 zkPassportProof2 st =
     (if usedNullifiers st proposerN then Inl (NullifierAlreadyUsed, st)
      else if usedNullifiers st proposeeN then Inl (NullifierAlreadyUsed, st)
      else if nullifierToMarriage st proposerN \<noteq> 0 then Inl (AlreadyMarried, st)
      else if nullifierToMarriage st proposeeN \<noteq> 0 then Inl (AlreadyMarried, st)
      else if proposerNullifier (proposals st proposalId) \<noteq> 0
        then Inl (Error ''Proposal already exists'', st)
      else if \<not> verifyZKPassportProof H zkPassportProof1 proposerN
        then Inl (InvalidZKPassportProof, st)
      else if \<not> verifyZKPassportProof H zkPassportProof2 proposeeN
        then Inl (InvalidZKPassportProof, st)
      else Inr (st\<lparr>proposals := (proposals st)(proposalId :=
             \<lparr>proposerNullifier = proposerN, proposeeNullifier = proposeeN,
              proposalHash = propHash, timestamp = now, expiresAt = expirationTime,
              isAccepted = False, isExpired = False, proposalJurisdiction = jur\<rparr>)\<rparr>))"

text \<open>
  \<^verbatim>\<open>acceptMarriage\<close> reads the proposal through a storage reference; the nullifiers
  and the jurisdiction it reads after setting \<^verbatim>\<open>isAccepted\<close> are the ones read
  before, since that assignment changes no other field.
\<close>

definition marriageId_of :: "keccak \<Rightarrow> MarriageProposal \<Rightarrow> uint256 \<Rightarrow> bytes32" where
  "marriageId_of H proposal now =
     H (packed_word (proposerNullifier proposal) @ packed_word (proposeeNullifier proposal)
        @ packed_word now @ packed_string (proposalJurisdiction proposal))"

definition acceptMarriage ::
  "keccak \<Rightarrow> uint256 \<Rightarrow> bytes32 \<Rightarrow> bytes32 \<Rightarrow> registry \<Rightarrow> outcome" where
  "acceptMarriage H now proposalId certHash st =
     (let proposal = proposals st proposalId in
      if proposerNullifier proposal = 0 then Inl (ProposalNotFound, st)
      else if now > expiresAt proposal then Inl (ProposalExpired, st)
      else if isAccepted proposal then Inl (Error ''Already accepted'', st)
      else
        let st1 = st\<lparr>proposals := (proposals st)(proposalId := proposal\<lparr>isAccepted := True\<rparr>)\<rparr>;
            marriageId = marriageId_of H proposal now;
            st2 = st1\<lparr>marriages := (marriages st1)(marriageId :=
                    \<lparr>spouse1Nullifier = proposerNullifier proposal,
                     spouse2Nullifier = proposeeNullifier proposal,
                     proof1Hash = H (packed_word (proposerNullifier proposal)
                                     @ packed_string ''proof1''),
                     proof2Hash = H (packed_word (proposeeNullifier proposal)
                                     @ packed_string ''proof2''),
                     marriageDate = now, isActive = True,
                     jurisdiction = proposalJurisdiction proposal,
                     certificateHash = certHash\<rparr>)\<rparr>;
            st3 = st2\<lparr>nullifierToMarriage :=
                    (nullifierToMarriage st2)(proposerNullifier proposal := marriageId)\<rparr>;
            st4 = st3\<lparr>nullifierToMarriage :=
                    (nullifierToMarriage st3)(proposeeNullifier proposal := marriageId)\<rparr>;
            st5 = st4\<lparr>usedNullifiers :=
                    (usedNullifiers st4)(proposerNullifier proposal := True)\<rparr>;
            st6 = st5\<lparr>usedNullifiers :=
                    (usedNullifiers st5)(proposeeNullifier proposal := True)\<rparr>
        in Inr st6)"

definition createMarriage ::
  "keccak \<Rightarrow> uint256 \<Rightarrow> bytes32 \<Rightarrow> bytes32 \<Rightarrow> bytes32 \<Rightarrow> bytes32 \<Rightarrow> bytes32
     \<Rightarrow> registry \<Rightarrow> outcome" where
  "createMarriage H now marriageId spouse1N spouse2N p1Hash p2Hash st =
     (if usedNullifiers st spouse1N then Inl (NullifierAlreadyUsed, st)
      else if usedNullifiers st spouse2N then Inl (NullifierAlreadyUsed, st)
      else if nullifierToMarriage st spouse1N \<noteq> 0 then Inl (AlreadyMarried, st)
      else if nullifierToMarriage st spouse2N \<noteq> 0 then Inl (AlreadyMarried, st)
      else
        let st1 = st\<lparr>marriages := (marriages st)(marriageId :=
                    \<lparr>spouse1Nullifier = spouse1N, spouse2Nullifier = spouse2N,
                     proof1Hash = p1Hash, proof2Hash = p2Hash,
                     marriageDate = now, isActive = True, jurisdiction = ''default'',
                     certificateHash = H (packed_word marriageId @ packed_word now)\<rparr>)\<rparr>;
            st2 = st1\<lparr>nullifierToMarriage := (nullifierToMarriage st1)(spouse1N := marriageId)\<rparr>;
            st3 = st2\<lparr>nullifierToMarriage := (nullifierToMarriage st2)(spouse2N := marriageId)\<rparr>;
            st4 = st3\<lparr>usedNullifiers := (usedNullifiers st3)(spouse1N := True)\<rparr>;
            st5 = st4\<lparr>usedNullifiers := (usedNullifiers st4)(spouse2N := True)\<rparr>
        in Inr st5)"

text \<open>
  \<^verbatim>\<open>requestDivorce\<close> writes through the storage reference \<^verbatim>\<open>marriage\<close>; the two
  spouse fields it reads after clearing \<^verbatim>\<open>isActive\<close> are unchanged by that write.
\<close>

definition requestDivorce :: "bytes32 \<Rightarrow> bytes32 \<Rightarrow> registry \<Rightarrow> outcome" where
  "requestDivorce marriageId requesterN st =
     (let marriage = marriages st marriageId in
      if \<not> isActive marriage then Inl (MarriageNotActive, st)
      else if spouse1Nullifier marriage \<noteq> requesterN \<and> spouse2Nullifier marriage \<noteq> requesterN
        then Inl (NotAuthorized, st)
      else
        let st1 = st\<lparr>marriages := (marriages st)(marriageId := marriage\<lparr>isActive := False\<rparr>)\<rparr>;
            st2 = st1\<lparr>nullifierToMarriage :=
                    (nullifierToMarriage st1)(spouse1Nullifier marriage := 0)\<rparr>;
            st3 = st2\<lparr>nullifierToMarriage :=
                    (nullifierToMarriage st2)(spouse2Nullifier marriage := 0)\<rparr>
        in Inr st3)"

definition updateZKPassportVerifier :: "address \<Rightarrow> address \<Rightarrow> registry \<Rightarrow> outcome" where
  "updateZKPassportVerifier sender newVerifier st =
     (if owner st \<noteq> sender then Inl (OwnableUnauthorizedAccount sender, st)
      else Inr (st\<lparr>zkPassportVerifier := newVerifier\<rparr>))"

text \<open>The read-only functions.\<close>

definition getMarriageStatusByNullifier :: "registry \<Rightarrow> bytes32 \<Rightarrow> bool \<times> bytes32 \<times> uint256" where
  "getMarriageStatusByNullifier st nullifier =
     (let marriageId = nullifierToMarriage st nullifier in
      if marriageId \<noteq> 0
      then (isActive (marriages st marriageId), marriageId, marriageDate (marriages st marriageId))
      else (False, marriageId, 0))"

definition verifyMarriageCertificate :: "registry \<Rightarrow> bytes32 \<Rightarrow> bytes32 \<Rightarrow> bytes32 \<Rightarrow> bool" where
  "verifyMarriageCertificate st marriageId certHash requesterN =
     (let marriage = marriages st marriageId in
      if \<not> isActive marriage then False
      else if spouse1Nullifier marriage \<noteq> requesterN \<and> spouse2Nullifier marriage \<noteq> requesterN
        then False
      else certificateHash marriage = certHash)"

section \<open>Transactions\<close>

text \<open>
  The platform commits the storage of a call that returns and rolls back a call that
  reverts. A transaction carries the block timestamp and the sender. The calls are the
  five state-changing functions the contract declares; the two it inherits from
  \<^verbatim>\<open>Ownable\<close> write the owner only, which nothing but \<^verbatim>\<open>updateZKPassportVerifier\<close>
  reads.
\<close>

datatype call =
    CreateMarriageProposal bytes32 bytes32 bytes32 bytes32 uint256 string bytes bytes
  | AcceptMarriage bytes32 bytes32
  | CreateMarriage bytes32 bytes32 bytes32 bytes32 bytes32
  | RequestDivorce bytes32 bytes32
  | UpdateZKPassportVerifier address

fun dispatch :: "keccak \<Rightarrow> uint256 \<Rightarrow> address \<Rightarrow> call \<Rightarrow> registry \<Rightarrow> outcome" where
  "dispatch H now sender (CreateMarriageProposal pid a b h e j z1 z2) st =
     createMarriageProposal H now pid a b h e j z1 z2 st"
| "dispatch H now sender (AcceptMarriage pid c) st = acceptMarriage H now pid c st"
| "dispatch H now sender (CreateMarriage m a b h1 h2) st = createMarriage H now m a b h1 h2 st"
| "dispatch H now sender (RequestDivorce m r) st = requestDivorce m r st"
| "dispatch H now sender (UpdateZKPassportVerifier v) st = updateZKPassportVerifier sender v st"

definition commit :: "outcome \<Rightarrow> registry \<Rightarrow> registry" where
  "commit r st = (case r of Inl _ \<Rightarrow> st | Inr st' \<Rightarrow> st')"

fun run :: "keccak \<Rightarrow> (uint256 \<times> address \<times> call) list \<Rightarrow> registry \<Rightarrow> registry" where
  "run H [] st = st"
| "run H ((now, sender, c) # cs) st = run H cs (commit (dispatch H now sender c st) st)"

section \<open>MarriageRegistry: the address-bound variant\<close>

text \<open>
  The structs, the storage and the functions of \<^verbatim>\<open>src/MarriageRegistry.sol\<close>. Names
  that the nullifier-bound contract already uses carry the suffix \<open>_A\<close>.
\<close>

record Marriage_A =
  spouse1Hash :: bytes32
  spouse2Hash :: bytes32
  marriageDate_A :: uint256
  isActive_A :: bool
  merkleRoot :: bytes32

record MarriageProposal_A =
  proposer :: bytes32
  proposee :: bytes32
  timestamp_A :: uint256
  nonce :: uint256
  isAccepted_A :: bool
  isExpired_A :: bool

record registry_A =
  marriages_A :: "bytes32 \<Rightarrow> Marriage_A"
  proposals_A :: "bytes32 \<Rightarrow> MarriageProposal_A"
  personToMarriage :: "bytes32 \<Rightarrow> bytes32"
  validPassportHashes :: "bytes32 \<Rightarrow> bool"
  zkPassportMerkleRoot :: bytes32
  owner_A :: address

type_synonym outcome_A = "(error \<times> registry_A) + registry_A"

definition constructor_A :: "address \<Rightarrow> bytes32 \<Rightarrow> registry_A" where
  "constructor_A sender root =
     \<lparr>marriages_A = (\<lambda>_. \<lparr>spouse1Hash = 0, spouse2Hash = 0, marriageDate_A = 0,
                             isActive_A = False, merkleRoot = 0\<rparr>),
      proposals_A = (\<lambda>_. \<lparr>proposer = 0, proposee = 0, timestamp_A = 0, nonce = 0,
                             isAccepted_A = False, isExpired_A = False\<rparr>),
      personToMarriage = (\<lambda>_. 0), validPassportHashes = (\<lambda>_. False),
      zkPassportMerkleRoot = root, owner_A = sender\<rparr>"

text \<open>\<^verbatim>\<open>bytes32(uint256(uint160(a)))\<close>: the address, zero-extended to 32 bytes.\<close>

definition person :: "address \<Rightarrow> bytes32" where
  "person a = ucast a"

text \<open>
  The loop of \<^verbatim>\<open>verifyMerkleProof\<close>, from index \<open>i\<close> with the hash computed so far.
  The index is a \<^verbatim>\<open>uint256\<close> in the source; it never exceeds the length of the
  array, so its increment cannot overflow, and it is a natural number here. The array
  is only read below its length.
\<close>

function verifyMerkleProof_loop :: "keccak \<Rightarrow> bytes32 list \<Rightarrow> nat \<Rightarrow> bytes32 \<Rightarrow> bytes32" where
  "verifyMerkleProof_loop H prf i computedHash =
     (if i < length prf then
        (let proofElement = prf ! i in
         if computedHash \<le> proofElement
         then verifyMerkleProof_loop H prf (i + 1)
                (H (packed_word computedHash @ packed_word proofElement))
         else verifyMerkleProof_loop H prf (i + 1)
                (H (packed_word proofElement @ packed_word computedHash)))
      else computedHash)"
  by pat_completeness auto
termination
  by (relation "measure (\<lambda>(H, prf, i, computedHash). length prf - i)") auto

declare verifyMerkleProof_loop.simps [simp del]

definition verifyMerkleProof :: "keccak \<Rightarrow> bytes32 list \<Rightarrow> bytes32 \<Rightarrow> bytes32 \<Rightarrow> bool" where
  "verifyMerkleProof H prf root leaf = (verifyMerkleProof_loop H prf 0 leaf = root)"

definition verifyZKPassport :: "keccak \<Rightarrow> registry_A \<Rightarrow> address \<Rightarrow> bytes32 list \<Rightarrow> bool" where
  "verifyZKPassport H st user merkleProof =
     (let leaf = H (packed_address user)
      in verifyMerkleProof H merkleProof (zkPassportMerkleRoot st) leaf)"

definition generateMarriageMerkleRoot :: "keccak \<Rightarrow> bytes32 \<Rightarrow> bytes32 \<Rightarrow> bytes32" where
  "generateMarriageMerkleRoot H spouse1 spouse2 = H (packed_word spouse1 @ packed_word spouse2)"

definition proposeMarriage ::
  "keccak \<Rightarrow> uint256 \<Rightarrow> address \<Rightarrow> bytes32 \<Rightarrow> bytes32 \<Rightarrow> uint256 \<Rightarrow> bytes32 list
     \<Rightarrow> registry_A \<Rightarrow> outcome_A" where
  "proposeMarriage H now sender proposalId proposeeHash nonce0 merkleProof st =
     (if proposer (proposals_A st proposalId) \<noteq> 0
        then Inl (Error ''Proposal already exists'', st)
      else if \<not> verifyZKPassport H st sender merkleProof
        then Inl (Error ''Invalid zkPassport proof'', st)
      else if personToMarriage st (person sender) \<noteq> 0
        then Inl (Error ''Already married'', st)
      else Inr (st\<lparr>proposals_A := (proposals_A st)(proposalId :=
             \<lparr>proposer = person sender, proposee = proposeeHash, timestamp_A = now,
              nonce = nonce0, isAccepted_A = False, isExpired_A = False\<rparr>)\<rparr>))"

definition acceptMarriage_A ::
  "keccak \<Rightarrow> uint256 \<Rightarrow> address \<Rightarrow> bytes32 \<Rightarrow> bytes32 list \<Rightarrow> registry_A \<Rightarrow> outcome_A" where
  "acceptMarriage_A H now sender proposalId merkleProof st =
     (let proposal = proposals_A st proposalId in
      if proposee proposal \<noteq> person sender then Inl (Error ''Not the proposee'', st)
      else if isAccepted_A proposal then Inl (Error ''Already accepted'', st)
      else if isExpired_A proposal then Inl (Error ''Proposal expired'', st)
      else if \<not> verifyZKPassport H st sender merkleProof
        then Inl (Error ''Invalid zkPassport proof'', st)
      else if personToMarriage st (person sender) \<noteq> 0
        then Inl (Error ''Already married'', st)
      else
        let marriageId = H (packed_word (proposer proposal) @ packed_word (proposee proposal)
                            @ packed_word now);
            st1 = st\<lparr>marriages_A := (marriages_A st)(marriageId :=
                    \<lparr>spouse1Hash = proposer proposal, spouse2Hash = proposee proposal,
                     marriageDate_A = now, isActive_A = True,
                     merkleRoot = generateMarriageMerkleRoot H (proposer proposal)
                                    (proposee proposal)\<rparr>)\<rparr>;
            st2 = st1\<lparr>personToMarriage := (personToMarriage st1)(proposer proposal := marriageId)\<rparr>;
            st3 = st2\<lparr>personToMarriage := (personToMarriage st2)(proposee proposal := marriageId)\<rparr>;
            st4 = st3\<lparr>proposals_A := (proposals_A st3)(proposalId :=
                    proposal\<lparr>isAccepted_A := True\<rparr>)\<rparr>
        in Inr st4)"


definition getMarriageStatus :: "registry_A \<Rightarrow> address \<Rightarrow> bool \<times> bytes32" where
  "getMarriageStatus st user =
     (let userHash = person user; marriageId = personToMarriage st userHash
      in (marriageId \<noteq> 0 \<and> isActive_A (marriages_A st marriageId), marriageId))"

definition updateZKPassportMerkleRoot :: "address \<Rightarrow> bytes32 \<Rightarrow> registry_A \<Rightarrow> outcome_A" where
  "updateZKPassportMerkleRoot sender newRoot st =
     (if owner_A st \<noteq> sender then Inl (OwnableUnauthorizedAccount sender, st)
      else Inr (st\<lparr>zkPassportMerkleRoot := newRoot\<rparr>))"


section \<open>The membership verifier as the specification words it\<close>

text \<open>
  The specification describes the verifier as a fold: at each level the accumulator and
  the sibling are ordered by numeric value, concatenated and hashed; the result is
  compared with the root. These two definitions follow those words, to be compared with
  the loop above.
\<close>

definition spec_combine :: "keccak \<Rightarrow> bytes32 \<Rightarrow> bytes32 \<Rightarrow> bytes32" where
  "spec_combine H acc sibling = H (packed_word (min acc sibling) @ packed_word (max acc sibling))"

definition spec_verifyMembership :: "keccak \<Rightarrow> bytes32 \<Rightarrow> bytes32 \<Rightarrow> bytes32 list \<Rightarrow> bool" where
  "spec_verifyMembership H leaf root siblingPath = (foldl (spec_combine H) leaf siblingPath = root)"

section \<open>Concrete traces\<close>

text \<open>
  The general theorems hold for every hash function. To run the contract on concrete
  transactions the hash has to be a concrete function; \<open>demo_keccak\<close> stands in for
  \<^verbatim>\<open>keccak256\<close> there. It adds the bytes and the length of its input, which is enough
  to give the inputs of the traces below non-zero and pairwise different digests, the
  only properties of \<^verbatim>\<open>keccak256\<close> these traces rely on.
\<close>

definition demo_keccak :: keccak where
  "demo_keccak bs = foldl (\<lambda>h b. h + ucast b + 1) 0 bs"

text \<open>
  Three proof blobs and the nullifiers derived from them (1013, 1014 and 1015 under
  \<open>demo_keccak\<close>), a deployed registry, and the states reached by these transactions.
\<close>

definition deployed :: registry where
  "deployed = constructor 7 9"

text \<open>One person (nullifier 1013) proposes to two others; both proposals are stored.\<close>

definition two_proposals :: "(uint256 \<times> address \<times> call) list" where
  "two_proposals =
     [(100, 7, CreateMarriageProposal 1 1013 1014 0 200 ''X'' [1] [2]),
      (100, 7, CreateMarriageProposal 2 1013 1015 0 200 ''X'' [1] [3])]"

definition married_once :: registry where
  "married_once = run demo_keccak (two_proposals @ [(101, 8, AcceptMarriage 1 55)]) deployed"

definition married_twice :: registry where
  "married_twice = run demo_keccak
     (two_proposals @ [(101, 8, AcceptMarriage 1 55), (101, 8, AcceptMarriage 2 56)]) deployed"

text \<open>A marriage created directly under id 50, and the same marriage after a divorce.\<close>

definition direct_marriage :: registry where
  "direct_marriage = run demo_keccak [(100, 7, CreateMarriage 50 1 2 11 12)] deployed"

definition divorced :: registry where
  "divorced = run demo_keccak
     [(100, 7, CreateMarriage 50 1 2 11 12), (150, 8, RequestDivorce 50 2)] deployed"



section \<open>Invariant of the consumed set\<close>

text \<open>
  Both spouses of every active marriage are consumed, and so is every nullifier that
  has an index entry.
\<close>

definition consumed_inv :: "registry \<Rightarrow> bool" where
  "consumed_inv st \<longleftrightarrow>
     (\<forall>m. isActive (marriages st m) \<longrightarrow>
        usedNullifiers st (spouse1Nullifier (marriages st m)) \<and>
        usedNullifiers st (spouse2Nullifier (marriages st m))) \<and>
     (\<forall>n. nullifierToMarriage st n \<noteq> 0 \<longrightarrow> usedNullifiers st n)"

section \<open>Evaluation of the concrete traces\<close>

lemmas packed_eval = packed_word_def packed_string_def packed_address_def upt_rec

lemma demo_nullifiers:
  "derivedNullifier demo_keccak [1] = 1013"
  "derivedNullifier demo_keccak [2] = 1014"
  "derivedNullifier demo_keccak [3] = 1015"
  by (simp_all add: derivedNullifier_def demo_keccak_def packed_eval)

lemma demo_proofs_verify:
  "verifyZKPassportProof demo_keccak [1] 1013"
  "verifyZKPassportProof demo_keccak [2] 1014"
  "verifyZKPassportProof demo_keccak [3] 1015"
  by (simp_all add: verifyZKPassportProof_def demo_nullifiers)

lemmas trace_eval = two_proposals_def deployed_def constructor_def zero_Marriage_def
  zero_MarriageProposal_def commit_def createMarriageProposal_def acceptMarriage_def
  createMarriage_def requestDivorce_def marriageId_of_def demo_proofs_verify Let_def
  demo_keccak_def packed_eval

lemma married_twice_eval:
  "isActive (marriages married_twice 783)"
  "spouse1Nullifier (marriages married_twice 783) = 1013"
  "spouse2Nullifier (marriages married_twice 783) = 1014"
  "isActive (marriages married_twice 784)"
  "spouse1Nullifier (marriages married_twice 784) = 1013"
  "spouse2Nullifier (marriages married_twice 784) = 1015"
  "nullifierToMarriage married_twice 1013 = 784"
  by (simp_all add: married_twice_def trace_eval)

lemma married_once_eval:
  "nullifierToMarriage married_once 1013 = 783"
  "isActive (marriages married_once 783)"
  "spouse1Nullifier (marriages married_once 783) = 1013"
  "usedNullifiers married_once 1013"
  "proposerNullifier (proposals married_once 2) = 1013"
  "proposeeNullifier (proposals married_once 2) = 1015"
  "proposalJurisdiction (proposals married_once 2) = ''X''"
  "\<not> isAccepted (proposals married_once 2)"
  "expiresAt (proposals married_once 2) = 200"
  by (simp_all add: married_once_def trace_eval)

lemma direct_marriage_eval:
  "isActive (marriages direct_marriage 50)"
  "spouse1Nullifier (marriages direct_marriage 50) = 1"
  "spouse2Nullifier (marriages direct_marriage 50) = 2"
  "usedNullifiers direct_marriage 1"
  "usedNullifiers direct_marriage 2"
  "\<not> usedNullifiers direct_marriage 3"
  "\<not> usedNullifiers direct_marriage 4"
  "nullifierToMarriage direct_marriage 3 = 0"
  "nullifierToMarriage direct_marriage 4 = 0"
  "nullifierToMarriage direct_marriage 1 = 50"
  "nullifierToMarriage direct_marriage 2 = 50"
  by (simp_all add: direct_marriage_def trace_eval)

lemma demo_membership:
  "verifyZKPassport demo_keccak (constructor_A 7 25) 5 []"
  by (simp add: verifyZKPassport_def verifyMerkleProof_def verifyMerkleProof_loop.simps
        constructor_A_def demo_keccak_def packed_eval)

lemma pending_eval:
  "proposerNullifier (proposals (run demo_keccak two_proposals deployed) 1) = 1013"
  "proposeeNullifier (proposals (run demo_keccak two_proposals deployed) 1) = 1014"
  "proposalJurisdiction (proposals (run demo_keccak two_proposals deployed) 1) = ''X''"
  "expiresAt (proposals (run demo_keccak two_proposals deployed) 1) = 200"
  "\<not> isAccepted (proposals (run demo_keccak two_proposals deployed) 1)"
  "\<not> isActive (marriages (run demo_keccak two_proposals deployed) 1)"
  by (simp_all add: trace_eval)

lemma divorced_eval:
  "\<not> isActive (marriages divorced 50)"
  "nullifierToMarriage divorced 1 = 0"
  "nullifierToMarriage divorced 2 = 0"
  by (simp_all add: divorced_def trace_eval)




lemma demo_nullifier_7: "derivedNullifier demo_keccak [7] = 1019"
  by (simp add: derivedNullifier_def demo_keccak_def packed_eval)

section \<open>Reverts, the consumed set and the index\<close>

text \<open>No function writes to storage before its last check: a revert finds the storage as
  the call found it.\<close>

lemma reverts_before_writes:
  "dispatch H now sender c st = Inl (e, s) \<Longrightarrow> s = st"
  by (cases c)
     (auto simp: createMarriageProposal_def acceptMarriage_def createMarriage_def
        requestDivorce_def updateZKPassportVerifier_def Let_def split: if_splits)

lemma constructor_consumed_inv: "consumed_inv (constructor d v)"
  by (simp add: consumed_inv_def constructor_def zero_Marriage_def)

lemma createMarriageProposal_consumed_inv:
  "consumed_inv st \<Longrightarrow> createMarriageProposal H now pid a b h e j z1 z2 st = Inr st' \<Longrightarrow> consumed_inv st'"
  by (auto simp: consumed_inv_def createMarriageProposal_def split: if_splits)

lemma acceptMarriage_consumed_inv:
  "consumed_inv st \<Longrightarrow> acceptMarriage H now pid c st = Inr st' \<Longrightarrow> consumed_inv st'"
  by (auto simp: consumed_inv_def acceptMarriage_def Let_def split: if_splits)

lemma createMarriage_consumed_inv:
  "consumed_inv st \<Longrightarrow> createMarriage H now m a b h1 h2 st = Inr st' \<Longrightarrow> consumed_inv st'"
  by (auto simp: consumed_inv_def createMarriage_def Let_def split: if_splits)

lemma requestDivorce_consumed_inv:
  "consumed_inv st \<Longrightarrow> requestDivorce m r st = Inr st' \<Longrightarrow> consumed_inv st'"
  by (auto simp: consumed_inv_def requestDivorce_def Let_def split: if_splits)

lemma updateZKPassportVerifier_consumed_inv:
  "consumed_inv st \<Longrightarrow> updateZKPassportVerifier s v st = Inr st' \<Longrightarrow> consumed_inv st'"
  by (auto simp: consumed_inv_def updateZKPassportVerifier_def split: if_splits)

lemma commit_consumed_inv:
  "consumed_inv st \<Longrightarrow> consumed_inv (commit (dispatch H now sender c st) st)"
  by (cases c; cases "dispatch H now sender c st")
     (auto simp: commit_def dest: createMarriageProposal_consumed_inv acceptMarriage_consumed_inv
        createMarriage_consumed_inv requestDivorce_consumed_inv updateZKPassportVerifier_consumed_inv)

lemma run_consumed_inv: "consumed_inv st \<Longrightarrow> consumed_inv (run H calls st)"
  by (induction calls arbitrary: st) (auto simp: commit_consumed_inv)

lemma commit_used_mono:
  "usedNullifiers st n \<Longrightarrow> usedNullifiers (commit (dispatch H now sender c st) st) n"
  by (cases c)
     (auto simp: commit_def createMarriageProposal_def acceptMarriage_def createMarriage_def
        requestDivorce_def updateZKPassportVerifier_def Let_def)

lemma run_used_mono: "usedNullifiers st n \<Longrightarrow> usedNullifiers (run H calls st) n"
  by (induction calls arbitrary: st) (auto simp: commit_used_mono)

text \<open>No function sets the \<^verbatim>\<open>isExpired\<close> flag of a proposal.\<close>

lemma commit_isExpired:
  "\<not> isExpired (proposals st p) \<Longrightarrow> \<not> isExpired (proposals (commit (dispatch H now sender c st) st) p)"
  by (cases c)
     (auto simp: commit_def createMarriageProposal_def acceptMarriage_def createMarriage_def
        requestDivorce_def updateZKPassportVerifier_def Let_def)

lemma run_isExpired:
  "\<not> isExpired (proposals st p) \<Longrightarrow> \<not> isExpired (proposals (run H calls st) p)"
  by (induction calls arbitrary: st) (auto simp: commit_isExpired)

text \<open>
  \<^verbatim>\<open>acceptMarriage\<close> looks at the proposal only: it reads neither the index nor the
  consumed set. It returns exactly when the proposal exists, has not expired and has
  not been accepted.
\<close>

lemma acceptMarriage_returns_iff:
  "(\<exists>st'. acceptMarriage H now pid c st = Inr st') \<longleftrightarrow>
     proposerNullifier (proposals st pid) \<noteq> 0 \<and> now \<le> expiresAt (proposals st pid)
     \<and> \<not> isAccepted (proposals st pid)"
  by (auto simp: acceptMarriage_def Let_def)

lemma acceptMarriage_second_marriage:
  assumes pending: "proposerNullifier (proposals st pid) \<noteq> 0"
      "now \<le> expiresAt (proposals st pid)" "\<not> isAccepted (proposals st pid)"
    and married: "isActive (marriages st m)"
      "spouse1Nullifier (marriages st m) = proposerNullifier (proposals st pid)
       \<or> spouse2Nullifier (marriages st m) = proposerNullifier (proposals st pid)"
    and fresh: "marriageId_of H (proposals st pid) now \<noteq> m"
  shows "\<exists>st'. acceptMarriage H now pid c st = Inr st'
           \<and> marriages st' m = marriages st m
           \<and> isActive (marriages st' (marriageId_of H (proposals st pid) now))
           \<and> spouse1Nullifier (marriages st' (marriageId_of H (proposals st pid) now))
               = proposerNullifier (proposals st pid)
           \<and> nullifierToMarriage st' (proposerNullifier (proposals st pid)) \<noteq> m"
  using assms by (simp add: acceptMarriage_def Let_def not_less [symmetric])

section \<open>Uniqueness of the binding between identity and marriage\<close>

text \<open>
  C1. In every reachable state, both spouses of every active marriage map back to that
  marriage in \<^verbatim>\<open>nullifierToMarriage\<close> and are in \<^verbatim>\<open>usedNullifiers\<close>, so that
  an identity takes part in at most one active marriage.

  The part about \<^verbatim>\<open>usedNullifiers\<close> holds (\<open>run_consumed_inv\<close>). The part about the
  index does not: \<^verbatim>\<open>acceptMarriage\<close> does not check whether a party of the proposal
  has married since the proposal was made (\<open>acceptMarriage_second_marriage\<close>, for every
  hash function). In the trace below, nullifier 1013 proposes to 1014 and to 1015 and
  both proposals are accepted. Marriage 783 is then active with spouse 1013 while the
  index of 1013 holds 784, and 1013 is a spouse of two active marriages.
\<close>

theorem accept_breaks_index_invariant:
  "isActive (marriages married_twice 783)
   \<and> spouse1Nullifier (marriages married_twice 783) = 1013
   \<and> nullifierToMarriage married_twice 1013 \<noteq> 783
   \<and> isActive (marriages married_twice 784)
   \<and> spouse1Nullifier (marriages married_twice 784) = 1013"
  by (simp add: married_twice_def trace_eval)

text \<open>
  C2. Accepting a pending, unexpired proposal one of whose parties is bound to an active
  marriage fails with \<^verbatim>\<open>AlreadyMarried\<close> and creates no marriage, and creating a
  proposal for an identity in an active marriage fails with \<^verbatim>\<open>AlreadyMarried\<close>.

  Neither holds as stated. After the first acceptance of the trace, nullifier 1013 is
  bound to the active marriage 783 and proposal 2 is pending; accepting it returns and
  creates marriage 784; and a new proposal that names 1013 is refused with
  \<^verbatim>\<open>NullifierAlreadyUsed\<close>, the first check of \<^verbatim>\<open>createMarriageProposal\<close>, not with
  \<^verbatim>\<open>AlreadyMarried\<close>.
\<close>

theorem married_identity_counterexample:
  "nullifierToMarriage married_once 1013 = 783
   \<and> isActive (marriages married_once 783)
   \<and> spouse1Nullifier (marriages married_once 783) = 1013
   \<and> proposerNullifier (proposals married_once 2) = 1013
   \<and> \<not> isAccepted (proposals married_once 2)
   \<and> expiresAt (proposals married_once 2) = 200
   \<and> \<not> isl (acceptMarriage demo_keccak 101 2 56 married_once)
   \<and> isActive (marriages (projr (acceptMarriage demo_keccak 101 2 56 married_once)) 784)
   \<and> createMarriageProposal demo_keccak 101 3 1013 1015 0 200 ''X'' [1] [3] married_once
       = Inl (NullifierAlreadyUsed, married_once)"
  by (simp add: married_once_eval acceptMarriage_def createMarriageProposal_def
        marriageId_of_def Let_def demo_keccak_def packed_eval)

text \<open>
  C2, as amended. In every state reachable from deployment, \<^verbatim>\<open>createMarriageProposal\<close>
  for an identity that has an index entry, or that is a spouse of an active marriage,
  reverts with \<^verbatim>\<open>NullifierAlreadyUsed\<close> and leaves the storage as it was.
\<close>

theorem createMarriageProposal_married_identity_fails:
  assumes reach: "st = run H calls (constructor d v)"
    and bound: "nullifierToMarriage st n \<noteq> 0
       \<or> (isActive (marriages st m)
          \<and> (spouse1Nullifier (marriages st m) = n \<or> spouse2Nullifier (marriages st m) = n))"
    and named: "a = n \<or> b = n"
  shows "createMarriageProposal H now pid a b h e j z1 z2 st = Inl (NullifierAlreadyUsed, st)"
proof -
  have "consumed_inv st"
    unfolding reach by (rule run_consumed_inv [OF constructor_consumed_inv])
  with bound have "usedNullifiers st n"
    by (auto simp: consumed_inv_def)
  with named show ?thesis
    by (auto simp: createMarriageProposal_def)
qed

theorem createMarriageProposal_married_identity_fails_witness:
  "married_once = run demo_keccak (two_proposals @ [(101, 8, AcceptMarriage 1 55)]) (constructor 7 9)
   \<and> nullifierToMarriage married_once 1013 \<noteq> 0
   \<and> createMarriageProposal demo_keccak 102 3 1015 1013 0 200 ''Y'' [3] [1] married_once
       = Inl (NullifierAlreadyUsed, married_once)"
proof -
  have r: "married_once = run demo_keccak (two_proposals @ [(101, 8, AcceptMarriage 1 55)]) (constructor 7 9)"
    by (simp add: married_once_def deployed_def)
  have b: "nullifierToMarriage married_once 1013 \<noteq> 0"
    by (simp add: married_once_eval)
  from createMarriageProposal_married_identity_fails [OF r disjI1 [OF b] disjI2 [OF refl]] r b
  show ?thesis by blast
qed

section \<open>Direct creation\<close>

text \<open>
  C3. For every caller and every marriage id, also one that names an existing active
  marriage, \<^verbatim>\<open>createMarriage\<close> returns when neither nullifier is used and neither has
  an index entry. It verifies no proof and checks no caller. It overwrites
  \<^verbatim>\<open>marriages[marriageId]\<close> with the new record and marks both nullifiers used.
\<close>

theorem createMarriage_succeeds:
  assumes "\<not> usedNullifiers st s1" and "\<not> usedNullifiers st s2"
    and "nullifierToMarriage st s1 = 0" and "nullifierToMarriage st s2 = 0"
  shows "\<exists>st'. dispatch H now sender (CreateMarriage mid s1 s2 h1 h2) st = Inr st'
           \<and> marriages st' mid =
               \<lparr>spouse1Nullifier = s1, spouse2Nullifier = s2, proof1Hash = h1,
                proof2Hash = h2, marriageDate = now, isActive = True,
                jurisdiction = ''default'',
                certificateHash = H (packed_word mid @ packed_word now)\<rparr>
           \<and> usedNullifiers st' s1 \<and> usedNullifiers st' s2
           \<and> nullifierToMarriage st' s1 = mid \<and> nullifierToMarriage st' s2 = mid
           \<and> (\<forall>m. m \<noteq> mid \<longrightarrow> marriages st' m = marriages st m)
           \<and> proposals st' = proposals st"
  using assms by (simp add: createMarriage_def Let_def)

theorem createMarriage_succeeds_witness:
  "isActive (marriages direct_marriage 50)
   \<and> spouse1Nullifier (marriages direct_marriage 50) = 1
   \<and> \<not> usedNullifiers direct_marriage 3 \<and> \<not> usedNullifiers direct_marriage 4
   \<and> nullifierToMarriage direct_marriage 3 = 0 \<and> nullifierToMarriage direct_marriage 4 = 0
   \<and> (\<exists>st'. dispatch demo_keccak 120 99 (CreateMarriage 50 3 4 21 22) direct_marriage = Inr st'
          \<and> spouse1Nullifier (marriages st' 50) = 3 \<and> spouse2Nullifier (marriages st' 50) = 4
          \<and> isActive (marriages st' 50)
          \<and> usedNullifiers st' 3 \<and> usedNullifiers st' 4)"
proof -
  have h: "\<not> usedNullifiers direct_marriage 3" "\<not> usedNullifiers direct_marriage 4"
    "nullifierToMarriage direct_marriage 3 = 0" "nullifierToMarriage direct_marriage 4 = 0"
    by (simp_all add: direct_marriage_eval)
  from createMarriage_succeeds [OF h, of demo_keccak 120 99 50 21 22]
  obtain st' where
    "dispatch demo_keccak 120 99 (CreateMarriage 50 3 4 21 22) direct_marriage = Inr st'"
    "marriages st' 50 =
       \<lparr>spouse1Nullifier = 3, spouse2Nullifier = 4, proof1Hash = 21, proof2Hash = 22,
        marriageDate = 120, isActive = True, jurisdiction = ''default'',
        certificateHash = demo_keccak (packed_word 50 @ packed_word 120)\<rparr>"
    "usedNullifiers st' 3" "usedNullifiers st' 4"
    by blast
  then have "\<exists>st'. dispatch demo_keccak 120 99 (CreateMarriage 50 3 4 21 22) direct_marriage = Inr st'
          \<and> spouse1Nullifier (marriages st' 50) = 3 \<and> spouse2Nullifier (marriages st' 50) = 4
          \<and> isActive (marriages st' 50)
          \<and> usedNullifiers st' 3 \<and> usedNullifiers st' 4"
    by simp
  with h show ?thesis by (simp add: direct_marriage_eval)
qed

section \<open>Self-marriage\<close>

text \<open>
  C4. A proposal whose proposer and proposee are the same identity is rejected and not
  stored.

  It is stored: neither contract compares the two identities. On the freshly deployed
  registry, the proposal of nullifier 1013 to itself, with its valid proof given twice,
  returns and is stored.
\<close>

theorem self_proposal_counterexample:
  "\<not> isl (createMarriageProposal demo_keccak 100 1 1013 1013 0 200 ''X'' [1] [1] deployed)
   \<and> proposerNullifier (proposals (projr
         (createMarriageProposal demo_keccak 100 1 1013 1013 0 200 ''X'' [1] [1] deployed)) 1) = 1013
   \<and> proposeeNullifier (proposals (projr
         (createMarriageProposal demo_keccak 100 1 1013 1013 0 200 ''X'' [1] [1] deployed)) 1) = 1013"
  by (simp add: createMarriageProposal_def deployed_def constructor_def
        zero_MarriageProposal_def demo_proofs_verify)

text \<open>
  C4, as amended. A proposal whose proposer and proposee are the same identity is stored
  whenever the other preconditions hold: in the nullifier-bound registry when the
  nullifier is neither used nor indexed, the proposal id is free and both proofs derive
  the nullifier; in the address-bound registry when the proposal id is free, the
  sender's membership proof verifies and the sender is not married.
\<close>

theorem self_proposal_is_stored:
  "(\<not> usedNullifiers st n \<and> nullifierToMarriage st n = 0
      \<and> proposerNullifier (proposals st pid) = 0
      \<and> verifyZKPassportProof H z1 n \<and> verifyZKPassportProof H z2 n
    \<longrightarrow> (\<exists>st'. createMarriageProposal H now pid n n h e j z1 z2 st = Inr st'
           \<and> proposerNullifier (proposals st' pid) = n
           \<and> proposeeNullifier (proposals st' pid) = n))
   \<and> (proposer (proposals_A sA pid) = 0 \<and> verifyZKPassport H sA sender mp
      \<and> personToMarriage sA (person sender) = 0
    \<longrightarrow> (\<exists>sA'. proposeMarriage H now sender pid (person sender) k mp sA = Inr sA'
           \<and> proposer (proposals_A sA' pid) = person sender
           \<and> proposee (proposals_A sA' pid) = person sender))"
  by (simp add: createMarriageProposal_def proposeMarriage_def)

theorem self_proposal_is_stored_witness:
  "\<not> usedNullifiers deployed 1014 \<and> nullifierToMarriage deployed 1014 = 0
   \<and> proposerNullifier (proposals deployed 4) = 0
   \<and> verifyZKPassportProof demo_keccak [2] 1014
   \<and> (\<exists>st'. createMarriageProposal demo_keccak 100 4 1014 1014 0 200 ''X'' [2] [2] deployed = Inr st'
         \<and> proposerNullifier (proposals st' 4) = 1014
         \<and> proposeeNullifier (proposals st' 4) = 1014)
   \<and> proposer (proposals_A (constructor_A 7 25) 4) = 0
   \<and> verifyZKPassport demo_keccak (constructor_A 7 25) 5 []
   \<and> personToMarriage (constructor_A 7 25) (person 5) = 0
   \<and> (\<exists>sA'. proposeMarriage demo_keccak 100 5 4 (person 5) 1 [] (constructor_A 7 25) = Inr sA'
         \<and> proposer (proposals_A sA' 4) = person 5
         \<and> proposee (proposals_A sA' 4) = person 5)"
proof -
  have h: "\<not> usedNullifiers deployed 1014" "nullifierToMarriage deployed 1014 = 0"
    "proposerNullifier (proposals deployed 4) = 0"
    by (simp_all add: deployed_def constructor_def zero_MarriageProposal_def)
  have g: "proposer (proposals_A (constructor_A 7 25) 4) = 0"
    "personToMarriage (constructor_A 7 25) (person 5) = 0"
    by (simp_all add: constructor_A_def)
  from self_proposal_is_stored [of deployed 1014 4 demo_keccak "[2]" "[2]" 100 0 200 "''X''"
      "constructor_A 7 25" 5 "[]" 1] h g demo_proofs_verify demo_membership
  show ?thesis by simp
qed

section \<open>Atomicity\<close>

text \<open>
  C5. Every mutating operation is atomic. A call that fails leaves the proposals, the
  marriages, the index and the consumed set unchanged: it reverts before its first
  write (\<open>s = st\<close>), and the platform commits nothing. A call of \<^verbatim>\<open>acceptMarriage\<close>
  that returns has applied all its effects: the accepted flag, the marriage record,
  both index entries and both entries of the consumed set.
\<close>

theorem calls_are_atomic:
  "(dispatch H now sender c st = Inl (e, s)
      \<longrightarrow> s = st \<and> commit (dispatch H now sender c st) st = st)
   \<and> (acceptMarriage H now pid cert st = Inr st'
      \<longrightarrow> isAccepted (proposals st' pid)
        \<and> marriages st' (marriageId_of H (proposals st pid) now) =
            \<lparr>spouse1Nullifier = proposerNullifier (proposals st pid),
             spouse2Nullifier = proposeeNullifier (proposals st pid),
             proof1Hash = H (packed_word (proposerNullifier (proposals st pid))
                             @ packed_string ''proof1''),
             proof2Hash = H (packed_word (proposeeNullifier (proposals st pid))
                             @ packed_string ''proof2''),
             marriageDate = now, isActive = True,
             jurisdiction = proposalJurisdiction (proposals st pid),
             certificateHash = cert\<rparr>
        \<and> nullifierToMarriage st' (proposerNullifier (proposals st pid))
            = marriageId_of H (proposals st pid) now
        \<and> nullifierToMarriage st' (proposeeNullifier (proposals st pid))
            = marriageId_of H (proposals st pid) now
        \<and> usedNullifiers st' (proposerNullifier (proposals st pid))
        \<and> usedNullifiers st' (proposeeNullifier (proposals st pid)))"
proof (intro conjI impI)
  assume r: "dispatch H now sender c st = Inl (e, s)"
  then show "s = st" by (rule reverts_before_writes)
  from r show "commit (dispatch H now sender c st) st = st" by (simp add: commit_def)
next
  assume a: "acceptMarriage H now pid cert st = Inr st'"
  then have st': "st' = projr (acceptMarriage H now pid cert st)" by simp
  from a have g: "proposerNullifier (proposals st pid) \<noteq> 0"
      "\<not> expiresAt (proposals st pid) < now" "\<not> isAccepted (proposals st pid)"
    by (auto simp: acceptMarriage_def Let_def split: if_splits)
  show "isAccepted (proposals st' pid)"
    unfolding st' using g by (simp add: acceptMarriage_def Let_def)
  show "marriages st' (marriageId_of H (proposals st pid) now) =
            \<lparr>spouse1Nullifier = proposerNullifier (proposals st pid),
             spouse2Nullifier = proposeeNullifier (proposals st pid),
             proof1Hash = H (packed_word (proposerNullifier (proposals st pid))
                             @ packed_string ''proof1''),
             proof2Hash = H (packed_word (proposeeNullifier (proposals st pid))
                             @ packed_string ''proof2''),
             marriageDate = now, isActive = True,
             jurisdiction = proposalJurisdiction (proposals st pid),
             certificateHash = cert\<rparr>"
    unfolding st' using g by (simp add: acceptMarriage_def Let_def)
  show "nullifierToMarriage st' (proposerNullifier (proposals st pid))
            = marriageId_of H (proposals st pid) now"
    unfolding st' using g by (simp add: acceptMarriage_def Let_def)
  show "nullifierToMarriage st' (proposeeNullifier (proposals st pid))
            = marriageId_of H (proposals st pid) now"
    unfolding st' using g by (simp add: acceptMarriage_def Let_def)
  show "usedNullifiers st' (proposerNullifier (proposals st pid))"
    unfolding st' using g by (simp add: acceptMarriage_def Let_def)
  show "usedNullifiers st' (proposeeNullifier (proposals st pid))"
    unfolding st' using g by (simp add: acceptMarriage_def Let_def)
qed

theorem calls_are_atomic_witness:
  "dispatch demo_keccak 101 8 (RequestDivorce 1 1013) (run demo_keccak two_proposals deployed)
     = Inl (MarriageNotActive, run demo_keccak two_proposals deployed)
   \<and> commit (dispatch demo_keccak 101 8 (RequestDivorce 1 1013)
               (run demo_keccak two_proposals deployed))
        (run demo_keccak two_proposals deployed)
     = run demo_keccak two_proposals deployed
   \<and> \<not> isl (acceptMarriage demo_keccak 101 1 55 (run demo_keccak two_proposals deployed))
   \<and> isAccepted (proposals
        (projr (acceptMarriage demo_keccak 101 1 55 (run demo_keccak two_proposals deployed))) 1)
   \<and> nullifierToMarriage
        (projr (acceptMarriage demo_keccak 101 1 55 (run demo_keccak two_proposals deployed))) 1013
       = 783
   \<and> nullifierToMarriage
        (projr (acceptMarriage demo_keccak 101 1 55 (run demo_keccak two_proposals deployed))) 1014
       = 783
   \<and> usedNullifiers
        (projr (acceptMarriage demo_keccak 101 1 55 (run demo_keccak two_proposals deployed))) 1013
   \<and> usedNullifiers
        (projr (acceptMarriage demo_keccak 101 1 55 (run demo_keccak two_proposals deployed))) 1014"
proof -
  let ?s = "run demo_keccak two_proposals deployed"
  have f: "dispatch demo_keccak 101 8 (RequestDivorce 1 1013) ?s = Inl (MarriageNotActive, ?s)"
    by (simp add: requestDivorce_def pending_eval)
  have r: "\<not> isl (acceptMarriage demo_keccak 101 1 55 ?s)"
    by (simp add: acceptMarriage_def pending_eval Let_def)
  then have a: "acceptMarriage demo_keccak 101 1 55 ?s
      = Inr (projr (acceptMarriage demo_keccak 101 1 55 ?s))"
    by (cases "acceptMarriage demo_keccak 101 1 55 ?s") simp_all
  have m: "marriageId_of demo_keccak (proposals ?s 1) 101 = 783"
    by (simp add: marriageId_of_def pending_eval demo_keccak_def packed_eval)
  from calls_are_atomic [of demo_keccak 101 8 "RequestDivorce 1 1013" ?s MarriageNotActive ?s
      1 55 "projr (acceptMarriage demo_keccak 101 1 55 ?s)"] f a r
  show ?thesis by (simp add: m pending_eval)
qed

section \<open>Expiry\<close>

text \<open>
  C6. Accepting a proposal whose \<^verbatim>\<open>expiresAt\<close> lies in the past fails with
  \<^verbatim>\<open>ProposalExpired\<close> and creates no marriage, although no operation ever marks a
  proposal expired: the \<^verbatim>\<open>isExpired\<close> flag is false in every reachable state, and the
  check compares the block timestamp with \<^verbatim>\<open>expiresAt\<close>. A proposal exists when its
  proposer nullifier is not zero.
\<close>

theorem expired_proposal_not_accepted:
  "(proposerNullifier (proposals st pid) \<noteq> 0 \<and> expiresAt (proposals st pid) < now
      \<longrightarrow> acceptMarriage H now pid cert st = Inl (ProposalExpired, st)
        \<and> commit (acceptMarriage H now pid cert st) st = st)
   \<and> \<not> isExpired (proposals (run H calls (constructor d v)) p)"
proof -
  have "\<not> isExpired (proposals (constructor d v) p)"
    by (simp add: constructor_def zero_MarriageProposal_def)
  then have "\<not> isExpired (proposals (run H calls (constructor d v)) p)"
    by (rule run_isExpired)
  then show ?thesis
    by (simp add: acceptMarriage_def commit_def Let_def)
qed

theorem expired_proposal_not_accepted_witness:
  "proposerNullifier (proposals (run demo_keccak two_proposals deployed) 1) \<noteq> 0
   \<and> expiresAt (proposals (run demo_keccak two_proposals deployed) 1) < 201
   \<and> \<not> isExpired (proposals (run demo_keccak two_proposals (constructor 7 9)) 1)
   \<and> acceptMarriage demo_keccak 201 1 55 (run demo_keccak two_proposals deployed)
       = Inl (ProposalExpired, run demo_keccak two_proposals deployed)
   \<and> commit (acceptMarriage demo_keccak 201 1 55 (run demo_keccak two_proposals deployed))
         (run demo_keccak two_proposals deployed)
       = run demo_keccak two_proposals deployed"
proof -
  let ?s = "run demo_keccak two_proposals deployed"
  have h: "proposerNullifier (proposals ?s 1) \<noteq> 0" "expiresAt (proposals ?s 1) < 201"
    by (simp_all add: pending_eval)
  from expired_proposal_not_accepted [of ?s 1 201 demo_keccak 55 two_proposals 7 9 1] h
  show ?thesis by (simp add: commit_def)
qed

text \<open>
  The address-bound contract stores no expiry time. Its \<^verbatim>\<open>acceptMarriage\<close> tests the
  \<^verbatim>\<open>isExpired\<close> flag only, so whether it returns does not depend on the time of
  the call.
\<close>

lemma acceptMarriage_A_timeless:
  "isl (acceptMarriage_A H now sender pid mp st) = isl (acceptMarriage_A H now' sender pid mp st)"
  by (simp add: acceptMarriage_A_def Let_def)

section \<open>Divorce\<close>




section \<open>The consumed set only grows\<close>

text \<open>
  C8. No sequence of transactions, divorces included, removes a nullifier from
  \<^verbatim>\<open>usedNullifiers\<close>. A nullifier consumed by a marriage therefore makes every later
  \<^verbatim>\<open>createMarriageProposal\<close> that names it, as proposer or as proposee, fail with
  \<^verbatim>\<open>NullifierAlreadyUsed\<close>, also after the marriage has been dissolved.
\<close>

theorem usedNullifiers_monotonic:
  assumes "usedNullifiers st n" and "a = n \<or> b = n"
  shows "usedNullifiers (run H calls st) n
         \<and> createMarriageProposal H now pid a b h e j z1 z2 (run H calls st)
             = Inl (NullifierAlreadyUsed, run H calls st)"
proof -
  from assms(1) have "usedNullifiers (run H calls st) n"
    by (rule run_used_mono)
  with assms(2) show ?thesis
    by (auto simp: createMarriageProposal_def)
qed

theorem usedNullifiers_monotonic_witness:
  "usedNullifiers direct_marriage 1
   \<and> divorced = run demo_keccak [(150, 8, RequestDivorce 50 2)] direct_marriage
   \<and> \<not> isActive (marriages divorced 50)
   \<and> nullifierToMarriage divorced 1 = 0
   \<and> usedNullifiers divorced 1
   \<and> createMarriageProposal demo_keccak 200 9 1 1015 0 300 ''X'' [1] [3] divorced
       = Inl (NullifierAlreadyUsed, divorced)"
proof -
  have u: "usedNullifiers direct_marriage 1"
    by (simp add: direct_marriage_eval)
  have d: "divorced = run demo_keccak [(150, 8, RequestDivorce 50 2)] direct_marriage"
    by (simp add: divorced_def direct_marriage_def)
  from usedNullifiers_monotonic [OF u disjI1 [OF refl],
      of demo_keccak "[(150, 8, RequestDivorce 50 2)]" 200 9 1015 0 300 "''X''" "[1]" "[3]"]
  show ?thesis
    unfolding d [symmetric] using u d by (simp add: divorced_eval)
qed

section \<open>The membership verifier\<close>

lemma spec_combine_ordered:
  "spec_combine H acc sibling =
     (if acc \<le> sibling then H (packed_word acc @ packed_word sibling)
      else H (packed_word sibling @ packed_word acc))"
  by (simp add: spec_combine_def min_def max_def)

lemma verifyMerkleProof_loop_fold:
  "verifyMerkleProof_loop H path i acc = foldl (spec_combine H) acc (drop i path)"
proof (induction H path i acc rule: verifyMerkleProof_loop.induct)
  case (1 H path i computedHash)
  show ?case
  proof (cases "i < length path")
    case True
    then have d: "drop i path = path ! i # drop (i + 1) path"
      by (simp add: Cons_nth_drop_Suc)
    show ?thesis
    proof (cases "computedHash \<le> path ! i")
      case le: True
      with True "1.IH"(1) [OF True refl le] d show ?thesis
        by (simp add: verifyMerkleProof_loop.simps [of H path i] spec_combine_ordered)
    next
      case gt: False
      with True "1.IH"(2) [OF True refl gt] d show ?thesis
        by (simp add: verifyMerkleProof_loop.simps [of H path i] spec_combine_ordered)
    qed
  next
    case False
    then show ?thesis
      by (simp add: verifyMerkleProof_loop.simps [of H path i])
  qed
qed

lemma spec_combine_commute: "spec_combine H a b = spec_combine H b a"
  by (simp add: spec_combine_def min.commute max.commute)

text \<open>
  C9. \<^verbatim>\<open>verifyMerkleProof\<close> is a total function without a failure case. It folds the
  leaf through the sibling path, at each level hashing the smaller of the two values
  before the larger, and returns whether the result equals the root. For the empty
  path it returns true exactly when the leaf is the root.
\<close>

theorem verifyMerkleProof_is_ordered_fold:
  "verifyMerkleProof H path root leaf = spec_verifyMembership H leaf root path
   \<and> verifyMerkleProof H [] root leaf = (leaf = root)"
  by (simp add: verifyMerkleProof_def spec_verifyMembership_def verifyMerkleProof_loop_fold)

section \<open>The proof and its nullifier\<close>

text \<open>
  C10. \<^verbatim>\<open>_verifyZKPassportProof\<close> accepts a proof and a claimed nullifier only if the
  nullifier derived from the proof equals the claim; for every pair it refuses, the
  enclosing operation fails with \<^verbatim>\<open>InvalidZKPassportProof\<close>.

  The operation fails, but not always with that error: the verification is the sixth
  check of \<^verbatim>\<open>createMarriageProposal\<close>. The proof \<open>[7]\<close> derives 1019, not 1; a
  proposal naming the consumed nullifier 1 with that proof reverts with
  \<^verbatim>\<open>NullifierAlreadyUsed\<close>.
\<close>

theorem earlier_guard_counterexample:
  "\<not> verifyZKPassportProof demo_keccak [7] 1
   \<and> createMarriageProposal demo_keccak 200 9 1 1015 0 300 ''X'' [7] [3] direct_marriage
       = Inl (NullifierAlreadyUsed, direct_marriage)"
  by (simp add: verifyZKPassportProof_def demo_nullifier_7 createMarriageProposal_def
        direct_marriage_eval)


text \<open>
  C10, as amended. \<^verbatim>\<open>_verifyZKPassportProof\<close> accepts a proof and a claimed nullifier
  exactly when the proof is not empty and the hash of the proof's hash followed by the
  tag \<^verbatim>\<open>"nullifier"\<close> equals the claim. When it refuses either of the two proofs of
  \<^verbatim>\<open>createMarriageProposal\<close>, the call fails and stores nothing: with the error of the
  first earlier check that applies (consumed nullifier, index entry, proposal id in
  use), and with \<^verbatim>\<open>InvalidZKPassportProof\<close> when none of them does.
\<close>

theorem proof_must_derive_nullifier:
  "verifyZKPassportProof H z n
     = (z \<noteq> [] \<and> H (packed_word (H z) @ packed_string ''nullifier'') = n)
   \<and> (\<not> verifyZKPassportProof H z1 a \<or> \<not> verifyZKPassportProof H z2 b
      \<longrightarrow> createMarriageProposal H now pid a b h e j z1 z2 st
            = Inl (if usedNullifiers st a \<or> usedNullifiers st b then NullifierAlreadyUsed
                   else if nullifierToMarriage st a \<noteq> 0 \<or> nullifierToMarriage st b \<noteq> 0
                     then AlreadyMarried
                   else if proposerNullifier (proposals st pid) \<noteq> 0
                     then Error ''Proposal already exists''
                   else InvalidZKPassportProof, st)
          \<and> commit (createMarriageProposal H now pid a b h e j z1 z2 st) st = st)
   \<and> ((\<not> verifyZKPassportProof H z1 a \<or> \<not> verifyZKPassportProof H z2 b)
       \<and> \<not> usedNullifiers st a \<and> \<not> usedNullifiers st b
       \<and> nullifierToMarriage st a = 0 \<and> nullifierToMarriage st b = 0
       \<and> proposerNullifier (proposals st pid) = 0
      \<longrightarrow> createMarriageProposal H now pid a b h e j z1 z2 st
            = Inl (InvalidZKPassportProof, st))"
  by (auto simp: verifyZKPassportProof_def derivedNullifier_def createMarriageProposal_def
        commit_def Let_def)

theorem proof_must_derive_nullifier_witness:
  "\<not> verifyZKPassportProof demo_keccak [] 1013
   \<and> \<not> verifyZKPassportProof demo_keccak [1] 1014
   \<and> \<not> usedNullifiers deployed 1014 \<and> \<not> usedNullifiers deployed 1015
   \<and> nullifierToMarriage deployed 1014 = 0 \<and> nullifierToMarriage deployed 1015 = 0
   \<and> proposerNullifier (proposals deployed 1) = 0
   \<and> createMarriageProposal demo_keccak 100 1 1014 1015 0 200 ''X'' [1] [3] deployed
       = Inl (InvalidZKPassportProof, deployed)
   \<and> commit (createMarriageProposal demo_keccak 100 1 1014 1015 0 200 ''X'' [1] [3] deployed)
         deployed = deployed"
proof -
  have e: "\<not> verifyZKPassportProof demo_keccak [] 1013"
    by (simp add: verifyZKPassportProof_def)
  have v: "\<not> verifyZKPassportProof demo_keccak [1] 1014"
    by (simp add: verifyZKPassportProof_def demo_nullifiers)
  have g: "\<not> usedNullifiers deployed 1014" "\<not> usedNullifiers deployed 1015"
    "nullifierToMarriage deployed 1014 = 0" "nullifierToMarriage deployed 1015 = 0"
    "proposerNullifier (proposals deployed 1) = 0"
    by (simp_all add: deployed_def constructor_def zero_MarriageProposal_def)
  from proof_must_derive_nullifier [of demo_keccak "[1]" 1014 "[1]" 1014 "[3]" 1015
      100 1 0 200 "''X''" deployed] e v g
  show ?thesis by (simp add: commit_def)
qed


end
